theory Spec2Isabelle
  imports Main
begin

section \<open>Electro Power: the interactivity layer of assets/js/main.js\<close>

text \<open>
  A shallow embedding of the parts of \<^verbatim>\<open>assets/js/main.js\<close> that the specification
  makes claims about: the rate-limiting wrappers \<^verbatim>\<open>utils.debounce\<close> and
  \<^verbatim>\<open>utils.throttle\<close>, the catalog renderer \<^verbatim>\<open>ProductTabs\<close>, the consultation form of
  \<^verbatim>\<open>FormHandler\<close>, and the composer \<^verbatim>\<open>ElectroPowerApp\<close>.

  Conventions. A JavaScript string is a \<^typ>\<open>string\<close> holding its UTF-8 bytes, so the
  Cyrillic literals of the source appear as byte lists. \<^verbatim>\<open>undefined\<close> and \<^verbatim>\<open>null\<close> are
  \<^term>\<open>None\<close>. A thrown exception is a value of \<open>js_error\<close> returned next to the state the
  code had reached when it threw. Time is an integer number of milliseconds.
\<close>

subsection \<open>String literals of the source\<close>

text \<open>
  In source order of first use, transliterated: \<open>speed_unit\<close> is " km/ch",
  \<open>range_unit\<close> is " km zapas khoda", \<open>battery_unit\<close> is " Ach batareya" (the three
  suffixes of the feature chips), \<open>badge_text\<close> is "Khit prodazh", \<open>buy_text\<close> is
  "Kupit'", \<open>details_text\<close> is "Podrobnee", \<open>msg_fill_all_fields\<close> is "Pozhaluysta,
  zapolnite vse polya", \<open>sending_text\<close> is "Otpravlyaem...", \<open>msg_request_sent\<close> is
  "Zayavka otpravlena! My svyazhemsya s vami v techenie 10 minut.", \<open>msg_submit_failed\<close>
  is "Proizoshla oshibka. Poprobuyte eshche raz.". The two console messages start with the
  check-mark and cross-mark emoji (three bytes each).
\<close>

definition dquote :: char where
  "dquote = CHR 0x22"

definition speed_unit :: string where
  "speed_unit =
     '' '' @
     [CHR 0xD0, CHR 0xBA, CHR 0xD0, CHR 0xBC] @
     ''/'' @
     [CHR 0xD1, CHR 0x87]"

definition range_unit :: string where
  "range_unit =
     '' '' @
     [CHR 0xD0, CHR 0xBA, CHR 0xD0, CHR 0xBC] @
     '' '' @
     [CHR 0xD0, CHR 0xB7, CHR 0xD0, CHR 0xB0, CHR 0xD0, CHR 0xBF, CHR 0xD0, CHR 0xB0] @
     [CHR 0xD1, CHR 0x81] @
     '' '' @
     [CHR 0xD1, CHR 0x85, CHR 0xD0, CHR 0xBE, CHR 0xD0, CHR 0xB4, CHR 0xD0, CHR 0xB0]"

definition battery_unit :: string where
  "battery_unit =
     '' '' @
     [CHR 0xD0, CHR 0x90, CHR 0xD1, CHR 0x87] @
     '' '' @
     [CHR 0xD0, CHR 0xB1, CHR 0xD0, CHR 0xB0, CHR 0xD1, CHR 0x82, CHR 0xD0, CHR 0xB0] @
     [CHR 0xD1, CHR 0x80, CHR 0xD0, CHR 0xB5, CHR 0xD1, CHR 0x8F]"

definition badge_text :: string where
  "badge_text =
     [CHR 0xD0, CHR 0xA5, CHR 0xD0, CHR 0xB8, CHR 0xD1, CHR 0x82] @
     '' '' @
     [CHR 0xD0, CHR 0xBF, CHR 0xD1, CHR 0x80, CHR 0xD0, CHR 0xBE, CHR 0xD0, CHR 0xB4] @
     [CHR 0xD0, CHR 0xB0, CHR 0xD0, CHR 0xB6]"

definition buy_text :: string where
  "buy_text =
     [CHR 0xD0, CHR 0x9A, CHR 0xD1, CHR 0x83, CHR 0xD0, CHR 0xBF, CHR 0xD0, CHR 0xB8] @
     [CHR 0xD1, CHR 0x82, CHR 0xD1, CHR 0x8C]"

definition details_text :: string where
  "details_text =
     [CHR 0xD0, CHR 0x9F, CHR 0xD0, CHR 0xBE, CHR 0xD0, CHR 0xB4, CHR 0xD1, CHR 0x80] @
     [CHR 0xD0, CHR 0xBE, CHR 0xD0, CHR 0xB1, CHR 0xD0, CHR 0xBD, CHR 0xD0, CHR 0xB5] @
     [CHR 0xD0, CHR 0xB5]"

definition msg_fill_all_fields :: string where
  "msg_fill_all_fields =
     [CHR 0xD0, CHR 0x9F, CHR 0xD0, CHR 0xBE, CHR 0xD0, CHR 0xB6, CHR 0xD0, CHR 0xB0] @
     [CHR 0xD0, CHR 0xBB, CHR 0xD1, CHR 0x83, CHR 0xD0, CHR 0xB9, CHR 0xD1, CHR 0x81] @
     [CHR 0xD1, CHR 0x82, CHR 0xD0, CHR 0xB0] @
     '', '' @
     [CHR 0xD0, CHR 0xB7, CHR 0xD0, CHR 0xB0, CHR 0xD0, CHR 0xBF, CHR 0xD0, CHR 0xBE] @
     [CHR 0xD0, CHR 0xBB, CHR 0xD0, CHR 0xBD, CHR 0xD0, CHR 0xB8, CHR 0xD1, CHR 0x82] @
     [CHR 0xD0, CHR 0xB5] @
     '' '' @
     [CHR 0xD0, CHR 0xB2, CHR 0xD1, CHR 0x81, CHR 0xD0, CHR 0xB5] @
     '' '' @
     [CHR 0xD0, CHR 0xBF, CHR 0xD0, CHR 0xBE, CHR 0xD0, CHR 0xBB, CHR 0xD1, CHR 0x8F]"

definition msg_request_sent :: string where
  "msg_request_sent =
     [CHR 0xD0, CHR 0x97, CHR 0xD0, CHR 0xB0, CHR 0xD1, CHR 0x8F, CHR 0xD0, CHR 0xB2] @
     [CHR 0xD0, CHR 0xBA, CHR 0xD0, CHR 0xB0] @
     '' '' @
     [CHR 0xD0, CHR 0xBE, CHR 0xD1, CHR 0x82, CHR 0xD0, CHR 0xBF, CHR 0xD1, CHR 0x80] @
     [CHR 0xD0, CHR 0xB0, CHR 0xD0, CHR 0xB2, CHR 0xD0, CHR 0xBB, CHR 0xD0, CHR 0xB5] @
     [CHR 0xD0, CHR 0xBD, CHR 0xD0, CHR 0xB0] @
     ''! '' @
     [CHR 0xD0, CHR 0x9C, CHR 0xD1, CHR 0x8B] @
     '' '' @
     [CHR 0xD1, CHR 0x81, CHR 0xD0, CHR 0xB2, CHR 0xD1, CHR 0x8F, CHR 0xD0, CHR 0xB6] @
     [CHR 0xD0, CHR 0xB5, CHR 0xD0, CHR 0xBC, CHR 0xD1, CHR 0x81, CHR 0xD1, CHR 0x8F] @
     '' '' @
     [CHR 0xD1, CHR 0x81] @
     '' '' @
     [CHR 0xD0, CHR 0xB2, CHR 0xD0, CHR 0xB0, CHR 0xD0, CHR 0xBC, CHR 0xD0, CHR 0xB8] @
     '' '' @
     [CHR 0xD0, CHR 0xB2] @
     '' '' @
     [CHR 0xD1, CHR 0x82, CHR 0xD0, CHR 0xB5, CHR 0xD1, CHR 0x87, CHR 0xD0, CHR 0xB5] @
     [CHR 0xD0, CHR 0xBD, CHR 0xD0, CHR 0xB8, CHR 0xD0, CHR 0xB5] @
     '' 10 '' @
     [CHR 0xD0, CHR 0xBC, CHR 0xD0, CHR 0xB8, CHR 0xD0, CHR 0xBD, CHR 0xD1, CHR 0x83] @
     [CHR 0xD1, CHR 0x82] @
     ''.''"

definition msg_submit_failed :: string where
  "msg_submit_failed =
     [CHR 0xD0, CHR 0x9F, CHR 0xD1, CHR 0x80, CHR 0xD0, CHR 0xBE, CHR 0xD0, CHR 0xB8] @
     [CHR 0xD0, CHR 0xB7, CHR 0xD0, CHR 0xBE, CHR 0xD1, CHR 0x88, CHR 0xD0, CHR 0xBB] @
     [CHR 0xD0, CHR 0xB0] @
     '' '' @
     [CHR 0xD0, CHR 0xBE, CHR 0xD1, CHR 0x88, CHR 0xD0, CHR 0xB8, CHR 0xD0, CHR 0xB1] @
     [CHR 0xD0, CHR 0xBA, CHR 0xD0, CHR 0xB0] @
     ''. '' @
     [CHR 0xD0, CHR 0x9F, CHR 0xD0, CHR 0xBE, CHR 0xD0, CHR 0xBF, CHR 0xD1, CHR 0x80] @
     [CHR 0xD0, CHR 0xBE, CHR 0xD0, CHR 0xB1, CHR 0xD1, CHR 0x83, CHR 0xD0, CHR 0xB9] @
     [CHR 0xD1, CHR 0x82, CHR 0xD0, CHR 0xB5] @
     '' '' @
     [CHR 0xD0, CHR 0xB5, CHR 0xD1, CHR 0x89, CHR 0xD0, CHR 0xB5] @
     '' '' @
     [CHR 0xD1, CHR 0x80, CHR 0xD0, CHR 0xB0, CHR 0xD0, CHR 0xB7] @
     ''.''"

definition sending_text :: string where
  "sending_text =
     [CHR 0xD0, CHR 0x9E, CHR 0xD1, CHR 0x82, CHR 0xD0, CHR 0xBF, CHR 0xD1, CHR 0x80] @
     [CHR 0xD0, CHR 0xB0, CHR 0xD0, CHR 0xB2, CHR 0xD0, CHR 0xBB, CHR 0xD1, CHR 0x8F] @
     [CHR 0xD0, CHR 0xB5, CHR 0xD0, CHR 0xBC] @
     ''...''"

definition msg_init_ok :: string where
  "msg_init_ok =
     [CHR 0xE2, CHR 0x9C, CHR 0x85] @
     '' Electro Power App initialized successfully''"

definition msg_init_failed :: string where
  "msg_init_failed =
     [CHR 0xE2, CHR 0x9D, CHR 0x8C] @
     '' Error initializing Electro Power App:''"
datatype js_error = TypeError | SyntaxError

subsection \<open>Timers: \<^verbatim>\<open>setTimeout\<close>, \<^verbatim>\<open>clearTimeout\<close> and the event loop\<close>

text \<open>
  A pending timer is its handle, the time it is due and the callback it will run. Handles
  are positive and never reused, as in a browser. A negative delay counts as zero.
  \<^verbatim>\<open>clearTimeout\<close> of \<^verbatim>\<open>undefined\<close>, or of a handle that has fired, does nothing.
\<close>

type_synonym 'c timer = "nat \<times> int \<times> 'c"

record 'c timers =
  pending :: "'c timer list"
  next_id :: nat

definition no_timers :: "'c timers" where
  "no_timers = \<lparr>pending = [], next_id = 1\<rparr>"

definition setTimeout :: "'c \<Rightarrow> int \<Rightarrow> int \<Rightarrow> 'c timers \<Rightarrow> nat \<times> 'c timers" where
  "setTimeout cb delay now ts =
     (next_id ts,
      ts\<lparr>pending := pending ts @ [(next_id ts, now + max 0 delay, cb)],
         next_id := Suc (next_id ts)\<rparr>)"

definition clearTimeout :: "nat option \<Rightarrow> 'c timers \<Rightarrow> 'c timers" where
  "clearTimeout h ts =
     (case h of
        None \<Rightarrow> ts
      | Some i \<Rightarrow> ts\<lparr>pending := filter (\<lambda>(j, d, c). j \<noteq> i) (pending ts)\<rparr>)"

text \<open>
  The event loop for one wrapped callback. The callbacks that \<^verbatim>\<open>debounce\<close> and
  \<^verbatim>\<open>throttle\<close> hand to \<^verbatim>\<open>setTimeout\<close> neither schedule nor cancel a timer, so they act
  on the wrapper's variables only (\<open>'u\<close>). Timers fire at the time they are due, in order
  of due time and, among equals, in the order they were scheduled. \<open>run_timers cb lim\<close>
  fires the timers due up to \<open>lim\<close> (all of them for \<^term>\<open>None\<close>); \<open>play\<close> runs a
  trace of call-site activations \<open>(t, args)\<close>, given in time order, firing before each one
  the timers due by then, and stops right after the last call; \<open>simulate\<close> then lets the
  remaining timers fire, which is the whole trace.
\<close>

definition is_due :: "int option \<Rightarrow> 'c timer \<Rightarrow> bool" where
  "is_due lim tm = (case lim of None \<Rightarrow> True | Some t \<Rightarrow> fst (snd tm) \<le> t)"

definition run_timers ::
  "(int \<Rightarrow> 'c \<Rightarrow> 'u \<Rightarrow> 'u) \<Rightarrow> int option \<Rightarrow> 'c timers \<times> 'u \<Rightarrow> 'c timers \<times> 'u" where
  "run_timers cb lim s =
     (case s of (ts, u) \<Rightarrow>
        (ts\<lparr>pending := filter (\<lambda>tm. \<not> is_due lim tm) (pending ts)\<rparr>,
         foldl (\<lambda>u (i, d, c). cb d c u) u
           (sort_key (\<lambda>(i, d, c). d) (filter (is_due lim) (pending ts)))))"

fun play ::
  "(int \<Rightarrow> 'a \<Rightarrow> 'c timers \<times> 'u \<Rightarrow> 'c timers \<times> 'u) \<Rightarrow> (int \<Rightarrow> 'c \<Rightarrow> 'u \<Rightarrow> 'u) \<Rightarrow>
   (int \<times> 'a) list \<Rightarrow> 'c timers \<times> 'u \<Rightarrow> 'c timers \<times> 'u" where
  "play call cb [] s = s"
| "play call cb ((t, args) # es) s =
     play call cb es (call t args (run_timers cb (Some t) s))"

definition simulate ::
  "(int \<Rightarrow> 'a \<Rightarrow> 'c timers \<times> 'u \<Rightarrow> 'c timers \<times> 'u) \<Rightarrow> (int \<Rightarrow> 'c \<Rightarrow> 'u \<Rightarrow> 'u) \<Rightarrow>
   (int \<times> 'a) list \<Rightarrow> 'c timers \<times> 'u \<Rightarrow> 'c timers \<times> 'u" where
  "simulate call cb es s = run_timers cb None (play call cb es s)"

subsection \<open>\<^verbatim>\<open>utils.debounce\<close>\<close>

text \<open>
  The closure variable \<^verbatim>\<open>timeout\<close> and the log of the executions of \<^verbatim>\<open>func\<close> (time and
  arguments). \<^verbatim>\<open>!timeout\<close> holds for \<^verbatim>\<open>undefined\<close>, \<^verbatim>\<open>null\<close> and the number 0.
  \<open>later\<close> is the arrow function of that name, with the \<^verbatim>\<open>args\<close> it captured;
  \<open>debounce wait immediate\<close> is \<^verbatim>\<open>executedFunction\<close>, called at time \<open>t\<close>.
\<close>

record 'a debounce_vars =
  timeout :: "nat option"
  debounce_calls :: "(int \<times> 'a) list"

definition falsy_handle :: "nat option \<Rightarrow> bool" where
  "falsy_handle h = (h = None \<or> h = Some 0)"

definition later :: "bool \<Rightarrow> int \<Rightarrow> 'a \<Rightarrow> 'a debounce_vars \<Rightarrow> 'a debounce_vars" where
  "later immediate t args v =
     (let v1 = v\<lparr>timeout := None\<rparr>
      in if \<not> immediate then v1\<lparr>debounce_calls := debounce_calls v1 @ [(t, args)]\<rparr> else v1)"

definition debounce ::
  "int \<Rightarrow> bool \<Rightarrow> int \<Rightarrow> 'a \<Rightarrow> 'a timers \<times> 'a debounce_vars \<Rightarrow> 'a timers \<times> 'a debounce_vars" where
  "debounce wait immediate t args s =
     (case s of (ts, v) \<Rightarrow>
        (let callNow = (immediate \<and> falsy_handle (timeout v));
             ts1 = clearTimeout (timeout v) ts;
             (h, ts2) = setTimeout args wait t ts1;
             v2 = v\<lparr>timeout := Some h\<rparr>
         in (ts2, if callNow then v2\<lparr>debounce_calls := debounce_calls v2 @ [(t, args)]\<rparr> else v2)))"

definition debounce_init :: "'a timers \<times> 'a debounce_vars" where
  "debounce_init = (no_timers, \<lparr>timeout = None, debounce_calls = []\<rparr>)"

subsection \<open>\<^verbatim>\<open>utils.throttle\<close>\<close>

text \<open>
  The closure variables \<^verbatim>\<open>lastFunc\<close> and \<^verbatim>\<open>lastRan\<close> and the log of the executions of
  \<^verbatim>\<open>func\<close>. \<^verbatim>\<open>Date.now()\<close> at trace time \<open>t\<close> is \<open>epoch + t\<close>, where \<open>epoch\<close> is the
  clock's reading when the trace starts. \<^verbatim>\<open>!lastRan\<close> holds for \<^verbatim>\<open>undefined\<close> and for
  the number 0. \<open>throttle_timer\<close> is the arrow function handed to \<^verbatim>\<open>setTimeout\<close>
  (\<^verbatim>\<open>Date.now() - undefined\<close> is NaN, and \<^verbatim>\<open>NaN >= limit\<close> is false);
  \<open>throttle limit epoch\<close> is the returned function, called at time \<open>t\<close>.
\<close>

record 'a throttle_vars =
  lastFunc :: "nat option"
  lastRan :: "int option"
  throttle_calls :: "(int \<times> 'a) list"

definition Date_now :: "int \<Rightarrow> int \<Rightarrow> int" where
  "Date_now epoch t = epoch + t"

definition throttle_timer :: "int \<Rightarrow> int \<Rightarrow> int \<Rightarrow> 'a \<Rightarrow> 'a throttle_vars \<Rightarrow> 'a throttle_vars" where
  "throttle_timer limit epoch t args v =
     (case lastRan v of
        None \<Rightarrow> v
      | Some r \<Rightarrow>
          if Date_now epoch t - r \<ge> limit
          then v\<lparr>throttle_calls := throttle_calls v @ [(t, args)],
                 lastRan := Some (Date_now epoch t)\<rparr>
          else v)"

definition throttle ::
  "int \<Rightarrow> int \<Rightarrow> int \<Rightarrow> 'a \<Rightarrow> 'a timers \<times> 'a throttle_vars \<Rightarrow> 'a timers \<times> 'a throttle_vars" where
  "throttle limit epoch t args s =
     (case s of (ts, v) \<Rightarrow>
        (let run_now = (ts, v\<lparr>throttle_calls := throttle_calls v @ [(t, args)],
                              lastRan := Some (Date_now epoch t)\<rparr>)
         in case lastRan v of
              None \<Rightarrow> run_now
            | Some r \<Rightarrow>
                if r = 0 then run_now
                else
                  (let ts1 = clearTimeout (lastFunc v) ts;
                       (h, ts2) = setTimeout args (limit - (Date_now epoch t - r)) t ts1
                   in (ts2, v\<lparr>lastFunc := Some h\<rparr>))))"

definition throttle_init :: "'a timers \<times> 'a throttle_vars" where
  "throttle_init = (no_timers, \<lparr>lastFunc = None, lastRan = None, throttle_calls = []\<rparr>)"

text \<open>The two traces of the specification's examples.\<close>

definition throttle_trace :: "'a \<Rightarrow> 'a \<Rightarrow> 'a \<Rightarrow> 'a \<Rightarrow> (int \<times> 'a) list" where
  "throttle_trace a0 a1 a2 a3 = [(0, a0), (10, a1), (50, a2), (140, a3)]"

definition debounce_trace :: "'a \<Rightarrow> 'a \<Rightarrow> 'a \<Rightarrow> (int \<times> 'a) list" where
  "debounce_trace a0 a1 a2 = [(0, a0), (10, a1), (50, a2)]"

subsection \<open>The page\<close>

text \<open>
  The elements that carry a class list and a \<^verbatim>\<open>data-tab\<close> attribute live in a store
  indexed by address; \<open>document\<close> lists the addresses of those in the document, in tree
  order. \<open>modelsGrid\<close> is the child list of the first \<^verbatim>\<open>.models-grid\<close> element, or
  \<^term>\<open>None\<close> when the document has none.
\<close>

record product =
  product_name :: string
  product_price :: string
  product_image :: string
  product_features :: "string list"

record card =
  card_className :: string
  img_src :: string
  img_alt :: string
  img_loading :: string
  badge :: string
  title :: string
  feature_spans :: "(string \<times> string) list"
  price_text :: string
  action_buttons :: "(string \<times> string) list"

record element =
  classList :: "string list"
  data_tab :: "string option"

record page =
  element_at :: "nat \<Rightarrow> element"
  document :: "nat list"
  modelsGrid :: "card list option"

definition classList_remove :: "string \<Rightarrow> nat \<Rightarrow> page \<Rightarrow> page" where
  "classList_remove c b pg =
     pg\<lparr>element_at := (element_at pg)
          (b := (element_at pg b)\<lparr>classList := filter (\<lambda>x. x \<noteq> c) (classList (element_at pg b))\<rparr>)\<rparr>"

definition classList_add :: "string \<Rightarrow> nat \<Rightarrow> page \<Rightarrow> page" where
  "classList_add c b pg =
     pg\<lparr>element_at := (element_at pg)
          (b := (element_at pg b)\<lparr>classList :=
                  (if c \<in> set (classList (element_at pg b)) then classList (element_at pg b)
                   else classList (element_at pg b) @ [c])\<rparr>)\<rparr>"

definition classList_contains :: "string \<Rightarrow> page \<Rightarrow> nat \<Rightarrow> bool" where
  "classList_contains c pg b = (c \<in> set (classList (element_at pg b)))"

definition appendChild :: "page \<Rightarrow> card \<Rightarrow> page" where
  "appendChild pg c = pg\<lparr>modelsGrid := map_option (\<lambda>cs. cs @ [c]) (modelsGrid pg)\<rparr>"

subsection \<open>\<^verbatim>\<open>ProductTabs\<close>\<close>

text \<open>
  \<open>productData\<close> is the object literal of \<^verbatim>\<open>getProductData\<close>: its own properties, in
  source order. It is a plain object, so a property read that misses the own properties
  continues on \<^verbatim>\<open>Object.prototype\<close>, whose members (the standard ones and the legacy
  accessors) are all truthy and none of them an array. A property key \<^verbatim>\<open>null\<close> is
  converted to the string "null".
\<close>

definition productData :: "(string \<times> product list) list" where
  "productData =
     [(''scooters'',
       [\<lparr>product_name = ''Kugoo C1'', product_price = ''450 BYN'',
         product_image = ''../assets/images/products/kugoo-c1.jpg'',
         product_features = [''25'' @ speed_unit, ''25'' @ range_unit, ''7.5'' @ battery_unit]\<rparr>,
        \<lparr>product_name = ''Kugoo M2'', product_price = ''650 BYN'',
         product_image = ''../assets/images/products/kugoo-m2.jpg'',
         product_features = [''35'' @ speed_unit, ''35'' @ range_unit, ''10.4'' @ battery_unit]\<rparr>,
        \<lparr>product_name = ''Kugoo M4 Pro'', product_price = ''850 BYN'',
         product_image = ''../assets/images/products/kugoo-m4-pro.jpg'',
         product_features = [''45'' @ speed_unit, ''50'' @ range_unit, ''18'' @ battery_unit]\<rparr>]),
      (''bikes'',
       [\<lparr>product_name = ''GT V6'', product_price = ''1200 BYN'',
         product_image = ''../assets/images/products/gt-v6.jpg'',
         product_features = [''25'' @ speed_unit, ''60'' @ range_unit, ''13'' @ battery_unit]\<rparr>,
        \<lparr>product_name = ''CAMRY 3.5'', product_price = ''1500 BYN'',
         product_image = ''../assets/images/products/camry-35.jpg'',
         product_features = [''25'' @ speed_unit, ''70'' @ range_unit, ''16'' @ battery_unit]\<rparr>,
        \<lparr>product_name = ''Kugoo Kirin C2'', product_price = ''1800 BYN'',
         product_image = ''../assets/images/products/kugoo-kirin-c2.jpg'',
         product_features = [''25'' @ speed_unit, ''80'' @ range_unit, ''20'' @ battery_unit]\<rparr>]),
      (''mopeds'',
       [\<lparr>product_name = ''CityCoco GT X-11'', product_price = ''2500 BYN'',
         product_image = ''../assets/images/products/citycoco-gt-x11.jpg'',
         product_features = [''45'' @ speed_unit, ''60'' @ range_unit, ''20'' @ battery_unit]\<rparr>,
        \<lparr>product_name = ''GT EV3'', product_price = ''3200 BYN'',
         product_image = ''../assets/images/products/gt-ev3.jpg'',
         product_features = [''60'' @ speed_unit, ''80'' @ range_unit, ''32'' @ battery_unit]\<rparr>,
        \<lparr>product_name = ''IKINGI X7 PRO'', product_price = ''4500 BYN'',
         product_image = ''../assets/images/products/ikingi-x7-pro.jpg'',
         product_features = [''80'' @ speed_unit, ''120'' @ range_unit, ''60'' @ battery_unit]\<rparr>])]"

datatype js_value = Undefined | Array "product list" | PrototypeMember string

definition Object_prototype :: "string list" where
  "Object_prototype =
     [''constructor'', ''hasOwnProperty'', ''isPrototypeOf'', ''propertyIsEnumerable'',
      ''toLocaleString'', ''toString'', ''valueOf'', ''__proto__'', ''__defineGetter__'',
      ''__defineSetter__'', ''__lookupGetter__'', ''__lookupSetter__'']"

definition ToPropertyKey :: "string option \<Rightarrow> string" where
  "ToPropertyKey k = (case k of None \<Rightarrow> ''null'' | Some s \<Rightarrow> s)"

definition property_get :: "string \<Rightarrow> js_value" where
  "property_get k =
     (case map_of productData k of
        Some ps \<Rightarrow> Array ps
      | None \<Rightarrow> if k \<in> set Object_prototype then PrototypeMember k else Undefined)"

definition truthy :: "js_value \<Rightarrow> bool" where
  "truthy v = (v \<noteq> Undefined)"

definition getProductData :: "string option \<Rightarrow> js_value" where
  "getProductData type =
     (if truthy (property_get (ToPropertyKey type)) then property_get (ToPropertyKey type)
      else property_get ''scooters'')"

text \<open>
  \<open>createProductCard\<close>: the element built from the template, read as the tree the markup
  parses to. The fields of the products of the table contain no markup characters.
\<close>

definition createProductCard :: "product \<Rightarrow> card" where
  "createProductCard product =
     \<lparr>card_className = ''product-card'',
      img_src = product_image product,
      img_alt = product_name product,
      img_loading = ''lazy'',
      badge = badge_text,
      title = product_name product,
      feature_spans = map (\<lambda>feature. (''feature'', feature)) (product_features product),
      price_text = product_price product,
      action_buttons = [(''btn btn-primary btn-small'', buy_text),
                        (''btn btn-outline btn-small'', details_text)]\<rparr>"

text \<open>
  \<open>loadTabContent\<close>: nothing happens without a grid; otherwise the products are looked
  up, the grid is emptied, and \<^verbatim>\<open>products.forEach\<close> appends one card per product. On a
  value that is not an array \<^verbatim>\<open>forEach\<close> is not a function and the call throws, after
  the grid has been emptied.
\<close>

definition loadTabContent :: "string option \<Rightarrow> page \<Rightarrow> js_error option \<times> page" where
  "loadTabContent tabType pg =
     (case modelsGrid pg of
        None \<Rightarrow> (None, pg)
      | Some old \<Rightarrow>
          (let products = getProductData tabType;
               cleared = pg\<lparr>modelsGrid := Some []\<rparr>
           in case products of
                Array ps \<Rightarrow>
                  (None, foldl (\<lambda>p product. appendChild p (createProductCard product)) cleared ps)
              | _ \<Rightarrow> (Some TypeError, cleared)))"

text \<open>
  \<open>ProductTabs_switchTab tabButtons activeButton\<close> is \<^verbatim>\<open>ProductTabs.switchTab\<close>, where
  \<open>tabButtons\<close> is the node list taken by \<^verbatim>\<open>init\<close>; \<open>mark_active\<close> is its two
  statements on class lists. \<open>click_tabs\<close> is a sequence of
  clicks on tab buttons, each handled to its end; a handler that throws does not stop the
  later ones.
\<close>

definition querySelectorAll_tab_button :: "page \<Rightarrow> nat list" where
  "querySelectorAll_tab_button pg = filter (classList_contains ''tab-button'' pg) (document pg)"

definition mark_active :: "nat list \<Rightarrow> nat \<Rightarrow> page \<Rightarrow> page" where
  "mark_active tabButtons activeButton pg =
     classList_add ''active'' activeButton
       (foldl (\<lambda>p button. classList_remove ''active'' button p) pg tabButtons)"

definition ProductTabs_switchTab :: "nat list \<Rightarrow> nat \<Rightarrow> page \<Rightarrow> js_error option \<times> page" where
  "ProductTabs_switchTab tabButtons activeButton pg =
     (let targetTab = data_tab (element_at pg activeButton)
      in loadTabContent targetTab (mark_active tabButtons activeButton pg))"

definition loadDefaultTab :: "page \<Rightarrow> js_error option \<times> page" where
  "loadDefaultTab pg =
     (case find (\<lambda>b. classList_contains ''tab-button'' pg b \<and> classList_contains ''active'' pg b)
             (document pg) of
        None \<Rightarrow> (None, pg)
      | Some defaultButton \<Rightarrow> loadTabContent (data_tab (element_at pg defaultButton)) pg)"

fun click_tabs :: "nat list \<Rightarrow> nat list \<Rightarrow> page \<Rightarrow> page" where
  "click_tabs tabButtons [] pg = pg"
| "click_tabs tabButtons (b # bs) pg =
     click_tabs tabButtons bs (snd (ProductTabs_switchTab tabButtons b pg))"

definition active_tabs :: "nat list \<Rightarrow> page \<Rightarrow> nat list" where
  "active_tabs tabButtons pg = filter (classList_contains ''active'' pg) (remdups tabButtons)"

text \<open>
  A page with the three tab buttons of the catalog, the first one marked active, and an
  empty grid.
\<close>

definition demo_page :: page where
  "demo_page =
     \<lparr>element_at =
        (\<lambda>b. if b = 0 then \<lparr>classList = [''tab-button'', ''active''], data_tab = Some ''scooters''\<rparr>
             else if b = 1 then \<lparr>classList = [''tab-button''], data_tab = Some ''bikes''\<rparr>
             else if b = 2 then \<lparr>classList = [''tab-button''], data_tab = Some ''mopeds''\<rparr>
             else \<lparr>classList = [], data_tab = None\<rparr>),
      document = [0, 1, 2],
      modelsGrid = Some []\<rparr>"

subsection \<open>\<^verbatim>\<open>FormHandler\<close>\<close>

text \<open>
  The consultation form: its input elements in tree order (\<open>input_type\<close> is the
  \<^verbatim>\<open>type\<close> attribute in lower case, which is how a selector compares it;
  \<open>defaultValue\<close> is what \<^verbatim>\<open>reset()\<close> restores), and its first
  \<^verbatim>\<open>button[type="submit"]\<close> if it has one. \<open>notifications\<close> are the toast elements
  created so far, in order of creation; \<open>attached\<close> tells whether the element still has a
  parent. The callbacks handed to \<^verbatim>\<open>setTimeout\<close> are data: \<open>ResolveLatency\<close> resolves
  the promise that \<^verbatim>\<open>submitConsultationRequest\<close> awaits and carries the
  \<^verbatim>\<open>originalText\<close> its continuation has captured.
\<close>

record input =
  input_type :: "string option"
  input_name :: "string option"
  input_value :: string
  defaultValue :: string

record submit_button =
  textContent :: string
  disabled :: bool

datatype severity = Success | Error | Warning | Info

record notification =
  notification_className :: string
  notification_message :: string
  backgroundColor :: string
  transform :: string
  attached :: bool

datatype callback = ResolveLatency string | AnimateIn nat | AutoRemove nat | Detach nat

record site =
  consultationForm :: "input list"
  submitBtn :: "submit_button option"
  notifications :: "notification list"
  site_timers :: "callback timers"

definition severity_name :: "severity \<Rightarrow> string" where
  "severity_name ty =
     (case ty of Success \<Rightarrow> ''success'' | Error \<Rightarrow> ''error'' | Warning \<Rightarrow> ''warning''
      | Info \<Rightarrow> ''info'')"

definition colors :: "severity \<Rightarrow> string" where
  "colors ty =
     (case ty of Success \<Rightarrow> ''#28a745'' | Error \<Rightarrow> ''#dc3545'' | Warning \<Rightarrow> ''#ffc107''
      | Info \<Rightarrow> ''#17a2b8'')"

definition showNotification :: "string \<Rightarrow> severity \<Rightarrow> int \<Rightarrow> site \<Rightarrow> site" where
  "showNotification message ty now s =
     (let n = \<lparr>notification_className = ''notification notification-'' @ severity_name ty,
               notification_message = message,
               backgroundColor = colors ty,
               transform = ''translateX(100%)'',
               attached = True\<rparr>;
          k = length (notifications s);
          s1 = s\<lparr>notifications := notifications s @ [n]\<rparr>;
          (h1, ts1) = setTimeout (AnimateIn k) 100 now (site_timers s1);
          (h2, ts2) = setTimeout (AutoRemove k) 5000 now ts1
      in s1\<lparr>site_timers := ts2\<rparr>)"

definition removeNotification :: "nat \<Rightarrow> int \<Rightarrow> site \<Rightarrow> site" where
  "removeNotification k now s =
     (let s1 = s\<lparr>notifications := (notifications s)
                 [k := (notifications s ! k)\<lparr>transform := ''translateX(100%)''\<rparr>]\<rparr>;
          (h, ts) = setTimeout (Detach k) 300 now (site_timers s1)
      in s1\<lparr>site_timers := ts\<rparr>)"

text \<open>
  \<open>formData_get\<close> is \<^verbatim>\<open>FormData.get\<close> on the inputs of the form; \<open>field_or_input\<close> is
  \<^verbatim>\<open>formData.get(n) || form.querySelector('input[type="ty"]').value\<close>, which throws when the
  entry is missing or empty and the form has no such input.
\<close>

definition formData_get :: "string \<Rightarrow> input list \<Rightarrow> string option" where
  "formData_get n inputs = map_option input_value (find (\<lambda>i. input_name i = Some n) inputs)"

definition querySelector_input :: "string \<Rightarrow> input list \<Rightarrow> input option" where
  "querySelector_input ty inputs = find (\<lambda>i. input_type i = Some ty) inputs"

definition field_or_input :: "string \<Rightarrow> string \<Rightarrow> input list \<Rightarrow> js_error + string" where
  "field_or_input n ty inputs =
     (let from_input = (case querySelector_input ty inputs of
                          None \<Rightarrow> Inl TypeError
                        | Some i \<Rightarrow> Inr (input_value i))
      in case formData_get n inputs of
           None \<Rightarrow> from_input
         | Some v \<Rightarrow> if v = [] then from_input else Inr v)"

text \<open>
  \<open>submitConsultationRequest\<close> is the part of the asynchronous function that runs within
  the call, up to \<^verbatim>\<open>await\<close>; a missing submit button throws inside \<^verbatim>\<open>try\<close> and is
  reported by the \<^verbatim>\<open>catch\<close> block. \<open>submitConsultationRequest_resume\<close> is the part
  after \<^verbatim>\<open>await\<close>, run when the timer of the simulated call fires.
\<close>

definition submitConsultationRequest :: "string \<times> string \<Rightarrow> int \<Rightarrow> site \<Rightarrow> site" where
  "submitConsultationRequest data now s =
     (case submitBtn s of
        None \<Rightarrow> showNotification msg_submit_failed Error now s
      | Some btn \<Rightarrow>
          (let originalText = textContent btn;
               s1 = s\<lparr>submitBtn := Some (btn\<lparr>textContent := sending_text, disabled := True\<rparr>)\<rparr>;
               (h, ts) = setTimeout (ResolveLatency originalText) 1000 now (site_timers s1)
           in s1\<lparr>site_timers := ts\<rparr>))"

definition form_reset :: "input list \<Rightarrow> input list" where
  "form_reset inputs = map (\<lambda>i. i\<lparr>input_value := defaultValue i\<rparr>) inputs"

definition submitConsultationRequest_resume :: "string \<Rightarrow> int \<Rightarrow> site \<Rightarrow> site" where
  "submitConsultationRequest_resume originalText now s =
     (let s1 = showNotification msg_request_sent Success now s;
          s2 = s1\<lparr>consultationForm := form_reset (consultationForm s1)\<rparr>
      in s2\<lparr>submitBtn :=
              map_option (\<lambda>btn. btn\<lparr>textContent := originalText, disabled := False\<rparr>) (submitBtn s2)\<rparr>)"

definition handleConsultationSubmit :: "int \<Rightarrow> site \<Rightarrow> js_error option \<times> site" where
  "handleConsultationSubmit now s =
     (case field_or_input ''name'' ''text'' (consultationForm s) of
        Inl e \<Rightarrow> (Some e, s)
      | Inr name \<Rightarrow>
          (case field_or_input ''phone'' ''tel'' (consultationForm s) of
             Inl e \<Rightarrow> (Some e, s)
           | Inr phone \<Rightarrow>
               if name = [] \<or> phone = []
               then (None, showNotification msg_fill_all_fields Error now s)
               else (None, submitConsultationRequest (name, phone) now s)))"

text \<open>
  What a timer of the site does when it fires at time \<open>now\<close>; \<open>fire\<close> takes a pending
  timer off the table and runs it.
\<close>

definition run_callback :: "callback \<Rightarrow> int \<Rightarrow> site \<Rightarrow> site" where
  "run_callback cb now s =
     (case cb of
        ResolveLatency originalText \<Rightarrow> submitConsultationRequest_resume originalText now s
      | AnimateIn k \<Rightarrow>
          s\<lparr>notifications := (notifications s)
               [k := (notifications s ! k)\<lparr>transform := ''translateX(0)''\<rparr>]\<rparr>
      | AutoRemove k \<Rightarrow> removeNotification k now s
      | Detach k \<Rightarrow>
          s\<lparr>notifications := (notifications s)
               [k := (notifications s ! k)\<lparr>attached := False\<rparr>]\<rparr>)"

definition fire :: "callback timer \<Rightarrow> site \<Rightarrow> site" where
  "fire tm s =
     (case tm of (h, due, cb) \<Rightarrow>
        run_callback cb due (s\<lparr>site_timers := clearTimeout (Some h) (site_timers s)\<rparr>))"

definition latency_timers :: "site \<Rightarrow> callback timer list" where
  "latency_timers s =
     filter (\<lambda>(h, due, cb). case cb of ResolveLatency x \<Rightarrow> True | _ \<Rightarrow> False)
       (pending (site_timers s))"

definition dom_contract :: "input list \<Rightarrow> string \<Rightarrow> string \<Rightarrow> bool" where
  "dom_contract inputs name phone =
     ((\<exists>i. querySelector_input ''text'' inputs = Some i \<and> input_value i = name) \<and>
      (\<exists>i. querySelector_input ''tel'' inputs = Some i \<and> input_value i = phone) \<and>
      formData_get ''name'' inputs \<in> {None, Some name} \<and>
      formData_get ''phone'' inputs \<in> {None, Some phone})"

text \<open>
  A form as the page contract describes it: a text input named "name", a tel input named
  "phone", neither with a preset value, and a submit button.
\<close>

definition demo_site :: "string \<Rightarrow> string \<Rightarrow> site" where
  "demo_site name phone =
     \<lparr>consultationForm =
        [\<lparr>input_type = Some ''text'', input_name = Some ''name'', input_value = name, defaultValue = []\<rparr>,
         \<lparr>input_type = Some ''tel'', input_name = Some ''phone'', input_value = phone, defaultValue = []\<rparr>],
      submitBtn = Some \<lparr>textContent = ''Send'', disabled = False\<rparr>,
      notifications = [],
      site_timers = no_timers\<rparr>"

subsection \<open>\<^verbatim>\<open>ElectroPowerApp\<close>\<close>

text \<open>
  \<open>initializeComponents\<close>. A widget's constructor is a parameter: it acts on an
  environment and may throw, leaving the environment as far as it got. \<open>components\<close> are
  the keys assigned so far, in order.
\<close>

datatype widget = AutoScroll | MobileNav | ProductTabs | FormHandler | PerformanceOptimizer
  | Analytics

datatype ('x) console_entry = Console_log string | Console_error string 'x

record ('x, 'e) app =
  components :: "widget list"
  console :: "'x console_entry list"
  body_loaded :: bool
  env :: 'e

definition widget_order :: "widget list" where
  "widget_order = [AutoScroll, MobileNav, ProductTabs, FormHandler, PerformanceOptimizer, Analytics]"

fun construct_all ::
  "(widget \<Rightarrow> 'e \<Rightarrow> 'x option \<times> 'e) \<Rightarrow> widget list \<Rightarrow> widget list \<times> 'e \<Rightarrow>
   'x option \<times> widget list \<times> 'e" where
  "construct_all ctor [] (cs, e) = (None, cs, e)"
| "construct_all ctor (w # ws) (cs, e) =
     (case ctor w e of
        (Some x, e') \<Rightarrow> (Some x, cs, e')
      | (None, e') \<Rightarrow> construct_all ctor ws (cs @ [w], e'))"

definition initializeComponents ::
  "(widget \<Rightarrow> 'e \<Rightarrow> 'x option \<times> 'e) \<Rightarrow> ('x, 'e) app \<Rightarrow> ('x, 'e) app" where
  "initializeComponents ctor a =
     (case construct_all ctor widget_order (components a, env a) of
        (None, cs, e) \<Rightarrow>
          a\<lparr>components := cs, env := e, console := console a @ [Console_log msg_init_ok],
            body_loaded := True\<rparr>
      | (Some x, cs, e) \<Rightarrow>
          a\<lparr>components := cs, env := e,
            console := console a @ [Console_error msg_init_failed x]\<rparr>)"

definition new_app :: "'e \<Rightarrow> ('x, 'e) app" where
  "new_app e = \<lparr>components = [], console = [], body_loaded = False, env = e\<rparr>"

definition throws_only :: "widget \<Rightarrow> widget \<Rightarrow> unit \<Rightarrow> js_error option \<times> unit" where
  "throws_only bad w e = (if w = bad then Some TypeError else None, e)"

text \<open>
  \<open>run_ok ctor ws e\<close> runs the constructors of \<open>ws\<close> in order from the environment
  \<open>e\<close>: the environment they leave when none of them throws in this run, \<^term>\<open>None\<close>
  otherwise. \<open>entered_ctor\<close> is a family of constructors that record in the environment
  each constructor entered; that of \<open>ProductTabs\<close> throws when the one of \<open>MobileNav\<close>
  has been entered before it, and in no other environment.
\<close>

fun run_ok :: "(widget \<Rightarrow> 'e \<Rightarrow> 'x option \<times> 'e) \<Rightarrow> widget list \<Rightarrow> 'e \<Rightarrow> 'e option" where
  "run_ok ctor [] e = Some e"
| "run_ok ctor (w # ws) e =
     (case ctor w e of
        (Some x, e') \<Rightarrow> None
      | (None, e') \<Rightarrow> run_ok ctor ws e')"

definition entered_ctor :: "widget \<Rightarrow> widget list \<Rightarrow> js_error option \<times> widget list" where
  "entered_ctor w e =
     (if w = ProductTabs \<and> MobileNav \<in> set e then Some TypeError else None, e @ [w])"

text \<open>
  \<^verbatim>\<open>ElectroPowerApp.switchTab\<close>. The selector (\<open>data_tab_selector\<close>, the template
  literal) is the text \<^verbatim>\<open>[data-tab="\<close>, the name as it is, and \<^verbatim>\<open>"]\<close>. \<open>parse_data_tab_list\<close> reads a selector that is a comma-separated list
  of attribute tests \<^verbatim>\<open>[data-tab="v"]\<close> whose values hold no quote, backslash, line break
  or NUL: such a value stands for itself. Every other selector is left to \<open>engine\<close>, the
  selector engine of the browser, a parameter. \<open>productTabs\<close> is the node list of the
  \<^verbatim>\<open>ProductTabs\<close> component, \<^term>\<open>None\<close> when the component was not constructed.
\<close>

definition plain_char :: "char \<Rightarrow> bool" where
  "plain_char c = (c \<notin> {dquote, CHR 0x5C, CHR 0x0A, CHR 0x0D, CHR 0x0C, CHR 0x00})"

fun strip_prefix :: "string \<Rightarrow> string \<Rightarrow> string option" where
  "strip_prefix [] s = Some s"
| "strip_prefix (p # ps) [] = None"
| "strip_prefix (p # ps) (c # cs) = (if p = c then strip_prefix ps cs else None)"

fun scan_string :: "string \<Rightarrow> (string \<times> string) option" where
  "scan_string [] = None"
| "scan_string (c # cs) =
     (if c = dquote then Some ([], cs)
      else if plain_char c then map_option (\<lambda>(v, r). (c # v, r)) (scan_string cs)
      else None)"

definition attr_open :: string where
  "attr_open = ''[data-tab='' @ [dquote]"

function parse_data_tab_list :: "string \<Rightarrow> string list option" where
  "parse_data_tab_list s =
     (case strip_prefix attr_open s of
        None \<Rightarrow> None
      | Some r \<Rightarrow>
          (case scan_string r of
             None \<Rightarrow> None
           | Some (v, r1) \<Rightarrow>
               if r1 = '']'' then Some [v]
               else (case strip_prefix ''],'' r1 of
                       None \<Rightarrow> None
                     | Some r2 \<Rightarrow> map_option ((#) v) (parse_data_tab_list r2))))"
  by pat_completeness auto
termination
proof (relation "measure length")
  have strip: "length r \<le> length s" if "strip_prefix p s = Some r" for p s r
    using that by (induction p s rule: strip_prefix.induct) (auto split: if_splits)
  have scan: "length r < length s" if "scan_string s = Some (v, r)" for s v r
    using that by (induction s arbitrary: v) (auto split: if_splits)
  show "wf (measure length)" by simp
  fix s r x v r1 r2
  assume "strip_prefix attr_open s = Some r" "scan_string r = Some x" "(v, r1) = x"
    "r1 \<noteq> '']''" "strip_prefix ''],'' r1 = Some r2"
  then show "(r2, s) \<in> measure length"
    using strip [of attr_open s r] scan [of r v r1] strip [of "''],''" r1 r2] by simp
qed

declare parse_data_tab_list.simps [simp del]

definition data_tab_selector :: "string \<Rightarrow> string" where
  "data_tab_selector tabName = attr_open @ tabName @ [dquote] @ '']''"

definition matches_data_tab :: "string list \<Rightarrow> page \<Rightarrow> nat \<Rightarrow> bool" where
  "matches_data_tab names pg b =
     (case data_tab (element_at pg b) of None \<Rightarrow> False | Some v \<Rightarrow> v \<in> set names)"

definition querySelector ::
  "(string \<Rightarrow> page \<Rightarrow> js_error + nat option) \<Rightarrow> string \<Rightarrow> page \<Rightarrow> js_error + nat option" where
  "querySelector engine selector pg =
     (case parse_data_tab_list selector of
        Some names \<Rightarrow> Inr (find (matches_data_tab names pg) (document pg))
      | None \<Rightarrow> engine selector pg)"

definition ElectroPowerApp_switchTab ::
  "(string \<Rightarrow> page \<Rightarrow> js_error + nat option) \<Rightarrow> nat list option \<Rightarrow> string \<Rightarrow> page \<Rightarrow>
   js_error option \<times> page" where
  "ElectroPowerApp_switchTab engine productTabs tabName pg =
     (case querySelector engine (data_tab_selector tabName) pg of
        Inl e \<Rightarrow> (Some e, pg)
      | Inr None \<Rightarrow> (None, pg)
      | Inr (Some tabButton) \<Rightarrow>
          (case productTabs of
             None \<Rightarrow> (None, pg)
           | Some tabButtons \<Rightarrow> ProductTabs_switchTab tabButtons tabButton pg))"

text \<open>
  A name that is the \<^verbatim>\<open>data-tab\<close> value of no element of \<open>demo_page\<close>: the text
  \<^verbatim>\<open>x"],[data-tab="bikes\<close>.
\<close>

definition injected_name :: string where
  "injected_name = ''x'' @ [dquote] @ ''],[data-tab='' @ [dquote] @ ''bikes''"

section \<open>The rate-limiting wrappers on the traces of the specification\<close>

lemmas wrapper_defs =
  simulate_def run_timers_def is_due_def setTimeout_def clearTimeout_def no_timers_def
  debounce_def later_def debounce_init_def falsy_handle_def debounce_trace_def
  throttle_def throttle_timer_def throttle_init_def Date_now_def throttle_trace_def

text \<open>
  C7. Debounce with a wait of 100 ms and \<^verbatim>\<open>immediate = false\<close>, called at 0, 10 and 50 ms
  and never again: the callback runs exactly once over the whole trace, at 150 ms, which
  is 100 ms after the last call, with the arguments of the last call; no timer is left.
\<close>

theorem debounce_runs_once_after_last_call:
  "debounce_calls (snd (simulate (debounce 100 False) (later False)
       (debounce_trace a0 a1 a2) debounce_init)) = [(150, a2)] \<and>
   pending (fst (simulate (debounce 100 False) (later False)
       (debounce_trace a0 a1 a2) debounce_init)) = []"
  by (simp add: wrapper_defs)

text \<open>
  C1, as the specification states it: throttle with a limit of 100 ms, called at 0, 10, 50
  and 140 ms, runs the callback at most twice over the whole trace. The code runs it three
  times: the call at 140 ms falls into the window opened by the trailing run at 100 ms
  and gets a trailing run of its own at 200 ms.
\<close>

theorem throttle_at_most_two_runs_counterexample:
  "\<not> length (throttle_calls (snd (simulate (throttle 100 1700000000000)
        (throttle_timer 100 1700000000000)
        (throttle_trace ''a'' ''b'' ''c'' ''d'') throttle_init))) \<le> 2"
  by (simp add: wrapper_defs)

text \<open>
  C1, amended: with a clock that reads a positive number when the trace starts, the
  callback runs at 0 ms with the arguments of the first call, at 100 ms with the arguments
  of the call at 50 ms (the latest one attempted by then) and at 200 ms with the arguments
  of the call at 140 ms: three runs in all, 100 ms apart, and no timer is left. Right
  after the call at 140 ms it has run twice and the third run is the one pending timer.
\<close>

theorem throttle_runs_on_trace:
  assumes "0 < epoch"
  shows "throttle_calls (snd (simulate (throttle 100 epoch) (throttle_timer 100 epoch)
            (throttle_trace a0 a1 a2 a3) throttle_init)) = [(0, a0), (100, a2), (200, a3)] \<and>
         pending (fst (simulate (throttle 100 epoch) (throttle_timer 100 epoch)
            (throttle_trace a0 a1 a2 a3) throttle_init)) = [] \<and>
         throttle_calls (snd (play (throttle 100 epoch) (throttle_timer 100 epoch)
            (throttle_trace a0 a1 a2 a3) throttle_init)) = [(0, a0), (100, a2)] \<and>
         pending (fst (play (throttle 100 epoch) (throttle_timer 100 epoch)
            (throttle_trace a0 a1 a2 a3) throttle_init)) = [(3, 200, a3)]"
  using assms by (simp add: wrapper_defs)

theorem throttle_runs_on_trace_witness:
  "(0::int) < 1700000000000 \<and>
   throttle_calls (snd (simulate (throttle 100 1700000000000) (throttle_timer 100 1700000000000)
      (throttle_trace ''a'' ''b'' ''c'' ''d'') throttle_init)) =
     [(0, ''a''), (100, ''c''), (200, ''d'')]"
  using throttle_runs_on_trace [of 1700000000000 "''a''" "''b''" "''c''" "''d''"] by simp

section \<open>The catalog renderer\<close>

lemma foldl_appendChild:
  "foldl (\<lambda>p product. appendChild p (createProductCard product)) (pg\<lparr>modelsGrid := Some cs\<rparr>) ps =
   pg\<lparr>modelsGrid := Some (cs @ map createProductCard ps)\<rparr>"
  by (induction ps arbitrary: cs) (simp_all add: appendChild_def)

lemma loadTabContent_Array:
  assumes "modelsGrid pg = Some old" and "getProductData k = Array ps"
  shows "loadTabContent k pg = (None, pg\<lparr>modelsGrid := Some (map createProductCard ps)\<rparr>)"
  using assms foldl_appendChild [where pg = pg and cs = "[]" and ps = ps] by (simp add: loadTabContent_def)

lemma loadTabContent_not_Array:
  assumes "modelsGrid pg = Some old" and "\<forall>ps. getProductData k \<noteq> Array ps"
  shows "loadTabContent k pg = (Some TypeError, pg\<lparr>modelsGrid := Some []\<rparr>)"
  using assms by (cases "getProductData k") (simp_all add: loadTabContent_def)

lemma loadTabContent_no_grid:
  "modelsGrid pg = None \<Longrightarrow> loadTabContent k pg = (None, pg)"
  by (simp add: loadTabContent_def)

lemma getProductData_known:
  assumes "map_of productData k = Some ps"
  shows "getProductData (Some k) = Array ps"
  using assms by (simp add: getProductData_def property_get_def ToPropertyKey_def truthy_def)

lemma known_keys:
  "k \<in> {''scooters'', ''bikes'', ''mopeds''} \<Longrightarrow> \<exists>ps. map_of productData k = Some ps \<and> length ps = 3"
  by (auto simp add: productData_def)

lemma loadTabContent_cases:
  obtains
    (no_grid) "modelsGrid pg = None" "loadTabContent k pg = (None, pg)"
  | (rendered) old ps where "modelsGrid pg = Some old" "getProductData k = Array ps"
      "loadTabContent k pg = (None, pg\<lparr>modelsGrid := Some (map createProductCard ps)\<rparr>)"
  | (thrown) old where "modelsGrid pg = Some old" "\<forall>ps. getProductData k \<noteq> Array ps"
      "loadTabContent k pg = (Some TypeError, pg\<lparr>modelsGrid := Some []\<rparr>)"
proof (cases "modelsGrid pg")
  case None
  then show ?thesis using no_grid loadTabContent_no_grid by blast
next
  case (Some old)
  show ?thesis
  proof (cases "\<exists>ps. getProductData k = Array ps")
    case True
    then show ?thesis using Some rendered loadTabContent_Array by blast
  next
    case False
    then show ?thesis using Some thrown loadTabContent_not_Array by blast
  qed
qed

lemma element_at_loadTabContent [simp]:
  "element_at (snd (loadTabContent k pg)) = element_at pg"
  by (rule loadTabContent_cases [where pg = pg and k = k]) simp_all

lemma document_loadTabContent [simp]:
  "document (snd (loadTabContent k pg)) = document pg"
  by (rule loadTabContent_cases [where pg = pg and k = k]) simp_all

lemma loadTabContent_idem:
  "loadTabContent k (snd (loadTabContent k pg)) = loadTabContent k pg"
proof (rule loadTabContent_cases [where pg = pg and k = k])
  assume "modelsGrid pg = None" "loadTabContent k pg = (None, pg)"
  then show ?thesis by simp
next
  fix old ps
  assume "modelsGrid pg = Some old" "getProductData k = Array ps"
    "loadTabContent k pg = (None, pg\<lparr>modelsGrid := Some (map createProductCard ps)\<rparr>)"
  then show ?thesis
    using loadTabContent_Array [where pg = "pg\<lparr>modelsGrid := Some (map createProductCard ps)\<rparr>" and k = k and ps = ps]
    by simp
next
  fix old
  assume "modelsGrid pg = Some old" "\<forall>ps. getProductData k \<noteq> Array ps"
    "loadTabContent k pg = (Some TypeError, pg\<lparr>modelsGrid := Some []\<rparr>)"
  then show ?thesis
    using loadTabContent_not_Array [where pg = "pg\<lparr>modelsGrid := Some []\<rparr>" and k = k]
    by simp
qed


lemma remove_all_fields [simp]:
  "document (foldl (\<lambda>p button. classList_remove c button p) pg bs) = document pg"
  "modelsGrid (foldl (\<lambda>p button. classList_remove c button p) pg bs) = modelsGrid pg"
  "page.more (foldl (\<lambda>p button. classList_remove c button p) pg bs) = page.more pg"
  by (induction bs arbitrary: pg) (simp_all add: classList_remove_def)

lemma remove_all_element_at:
  "element_at (foldl (\<lambda>p button. classList_remove c button p) pg bs) x =
     (if x \<in> set bs
      then (element_at pg x)\<lparr>classList := filter (\<lambda>y. y \<noteq> c) (classList (element_at pg x))\<rparr>
      else element_at pg x)"
proof (induction bs arbitrary: pg)
  case Nil
  then show ?case by simp
next
  case (Cons b bs)
  show ?case
    by (simp add: Cons.IH) (simp add: classList_remove_def)
qed

lemma mark_active_fields [simp]:
  "document (mark_active tbs b pg) = document pg"
  "modelsGrid (mark_active tbs b pg) = modelsGrid pg"
  "page.more (mark_active tbs b pg) = page.more pg"
  "data_tab (element_at (mark_active tbs b pg) x) = data_tab (element_at pg x)"
  by (simp_all add: mark_active_def remove_all_element_at classList_add_def)

lemma mark_active_contains:
  "x \<in> set tbs \<Longrightarrow> classList_contains ''active'' (mark_active tbs b pg) x \<longleftrightarrow> x = b"
  by (simp add: mark_active_def remove_all_element_at classList_add_def classList_contains_def)

lemma mark_active_modelsGrid_update:
  "mark_active tbs b (pg\<lparr>modelsGrid := g\<rparr>) = (mark_active tbs b pg)\<lparr>modelsGrid := g\<rparr>"
  by (rule page.equality)
    (simp_all add: mark_active_def remove_all_element_at classList_add_def fun_eq_iff)

lemma mark_active_idem:
  "mark_active tbs b (mark_active tbs b pg) = mark_active tbs b pg"
  by (rule page.equality)
    (simp_all add: mark_active_def remove_all_element_at classList_add_def fun_eq_iff)


lemma loadTabContent_frame:
  "snd (loadTabContent k pg) = pg\<lparr>modelsGrid := modelsGrid (snd (loadTabContent k pg))\<rparr>"
  by (rule loadTabContent_cases [where pg = pg and k = k]) simp_all

lemma switchTab_idem:
  "ProductTabs_switchTab tbs b (snd (ProductTabs_switchTab tbs b pg)) = ProductTabs_switchTab tbs b pg"
proof -
  let ?k = "data_tab (element_at pg b)"
  let ?q = "mark_active tbs b pg"
  let ?pg' = "snd (loadTabContent ?k ?q)"
  have first: "ProductTabs_switchTab tbs b pg = loadTabContent ?k ?q"
    by (simp add: ProductTabs_switchTab_def)
  have key: "data_tab (element_at ?pg' b) = ?k"
    by simp
  have frame: "?pg' = ?q\<lparr>modelsGrid := modelsGrid ?pg'\<rparr>"
    by (rule loadTabContent_frame)
  have "mark_active tbs b ?pg' = mark_active tbs b (?q\<lparr>modelsGrid := modelsGrid ?pg'\<rparr>)"
    by (rule arg_cong [OF frame])
  also have "\<dots> = ?q\<lparr>modelsGrid := modelsGrid ?pg'\<rparr>"
    by (simp add: mark_active_modelsGrid_update mark_active_idem)
  also have "\<dots> = ?pg'"
    by (rule frame [symmetric])
  finally have marked: "mark_active tbs b ?pg' = ?pg'" .
  have "ProductTabs_switchTab tbs b ?pg' = loadTabContent ?k ?pg'"
    unfolding ProductTabs_switchTab_def Let_def key marked ..
  then show ?thesis
    by (simp add: first loadTabContent_idem)
qed

lemma filter_eq_single:
  "distinct xs \<Longrightarrow> b \<in> set xs \<Longrightarrow> filter (\<lambda>x. x = b) xs = [b]"
  by (induction xs) (auto simp: filter_empty_conv)

lemma active_tabs_after_switch:
  "active_tabs tbs (snd (ProductTabs_switchTab tbs b pg)) = (if b \<in> set tbs then [b] else [])"
proof -
  let ?pg' = "snd (ProductTabs_switchTab tbs b pg)"
  have "classList_contains ''active'' ?pg' x \<longleftrightarrow> x = b" if "x \<in> set (remdups tbs)" for x
    using that mark_active_contains [of x tbs b pg]
    by (simp add: ProductTabs_switchTab_def classList_contains_def)
  then have "active_tabs tbs ?pg' = filter (\<lambda>x. x = b) (remdups tbs)"
    unfolding active_tabs_def by (intro filter_cong) auto
  then show ?thesis
    by (auto simp add: filter_eq_single filter_empty_conv)
qed

text \<open>
  C3. For every category key of the known set (scooters, bikes, mopeds), on a page that
  has a render target, \<open>loadTabContent\<close> throws nothing and leaves in the target exactly
  one card per product of the key's list, in the order of the list, whatever the target
  held before; so does \<open>ProductTabs_switchTab\<close> on a button bound to the key.
\<close>

theorem known_category_renders_table:
  assumes "k \<in> {''scooters'', ''bikes'', ''mopeds''}"
    and "modelsGrid pg = Some old"
  shows "\<exists>ps. map_of productData k = Some ps \<and>
           loadTabContent (Some k) pg = (None, pg\<lparr>modelsGrid := Some (map createProductCard ps)\<rparr>) \<and>
           length (map createProductCard ps) = length ps \<and>
           (data_tab (element_at pg b) = Some k \<longrightarrow>
              modelsGrid (snd (ProductTabs_switchTab tabButtons b pg)) = Some (map createProductCard ps))"
proof -
  from assms(1) obtain ps where ps: "map_of productData k = Some ps"
    using known_keys by blast
  then have arr: "getProductData (Some k) = Array ps"
    by (rule getProductData_known)
  have "loadTabContent (Some k) pg = (None, pg\<lparr>modelsGrid := Some (map createProductCard ps)\<rparr>)"
    using assms(2) arr by (rule loadTabContent_Array)
  moreover have "modelsGrid (snd (ProductTabs_switchTab tabButtons b pg)) = Some (map createProductCard ps)"
    if "data_tab (element_at pg b) = Some k"
    using that loadTabContent_Array [where pg = "mark_active tabButtons b pg" and k = "Some k" and ps = ps and old = old]
      assms(2) arr
    by (simp add: ProductTabs_switchTab_def)
  ultimately show ?thesis
    using ps by auto
qed

theorem known_category_renders_table_witness:
  "''bikes'' \<in> {''scooters'', ''bikes'', ''mopeds''} \<and>
   modelsGrid demo_page = Some [] \<and>
   data_tab (element_at demo_page 1) = Some ''bikes'' \<and>
   (\<exists>ps. map_of productData ''bikes'' = Some ps \<and> length ps = 3 \<and>
      loadTabContent (Some ''bikes'') demo_page =
        (None, demo_page\<lparr>modelsGrid := Some (map createProductCard ps)\<rparr>) \<and>
      modelsGrid (snd (ProductTabs_switchTab [0, 1, 2] 1 demo_page)) =
        Some (map createProductCard ps))"
proof -
  have h1: "''bikes'' \<in> {''scooters'', ''bikes'', ''mopeds''}"
    by simp
  have h2: "modelsGrid demo_page = Some []"
    by (simp add: demo_page_def)
  have h3: "data_tab (element_at demo_page 1) = Some ''bikes''"
    by (simp add: demo_page_def)
  from known_category_renders_table [OF h1 h2, of 1 "[0, 1, 2]"] h3
  obtain ps where ps: "map_of productData ''bikes'' = Some ps"
    "loadTabContent (Some ''bikes'') demo_page =
       (None, demo_page\<lparr>modelsGrid := Some (map createProductCard ps)\<rparr>)"
    "modelsGrid (snd (ProductTabs_switchTab [0, 1, 2] 1 demo_page)) =
       Some (map createProductCard ps)"
    by blast
  from ps(1) have "length ps = 3"
    by (auto simp add: productData_def)
  with h1 h2 h3 ps show ?thesis
    by blast
qed

text \<open>
  C5. For every key, rendering twice in a row is the same as rendering once: the second
  \<open>loadTabContent\<close> returns the same outcome and the same page, with the same cards in
  the target, and so does the second \<open>ProductTabs_switchTab\<close> on the same button.
\<close>

theorem render_replaces_content:
  "loadTabContent k (snd (loadTabContent k pg)) = loadTabContent k pg \<and>
   ProductTabs_switchTab tabButtons b (snd (ProductTabs_switchTab tabButtons b pg)) =
     ProductTabs_switchTab tabButtons b pg"
  by (simp add: loadTabContent_idem switchTab_idem)

text \<open>
  C6. After any sequence of \<open>ProductTabs_switchTab\<close> calls, from a page where at most one
  tab button is marked active, at most one tab button is marked active: each call takes
  the marking off every tab button and marks the element it was called on, so after a
  call on a tab button that button is the only one marked.
\<close>

theorem at_most_one_active_tab:
  assumes "length (active_tabs tabButtons pg) \<le> 1"
  shows "length (active_tabs tabButtons (click_tabs tabButtons clicks pg)) \<le> 1 \<and>
         (clicks \<noteq> [] \<and> last clicks \<in> set tabButtons \<longrightarrow>
            active_tabs tabButtons (click_tabs tabButtons clicks pg) = [last clicks])"
  using assms
proof (induction clicks arbitrary: pg)
  case Nil
  then show ?case by simp
next
  case (Cons b bs)
  let ?pg' = "snd (ProductTabs_switchTab tabButtons b pg)"
  have one: "active_tabs tabButtons ?pg' = (if b \<in> set tabButtons then [b] else [])"
    by (rule active_tabs_after_switch)
  then have "length (active_tabs tabButtons ?pg') \<le> 1"
    by simp
  from Cons.IH [OF this] one show ?case
    by (cases bs) simp_all
qed

theorem at_most_one_active_tab_witness:
  "length (active_tabs [0, 1, 2] demo_page) \<le> 1 \<and>
   [1, 2, 1 :: nat] \<noteq> [] \<and> last [1, 2, 1 :: nat] \<in> set [0, 1, 2] \<and>
   length (active_tabs [0, 1, 2] (click_tabs [0, 1, 2] [1, 2, 1] demo_page)) \<le> 1 \<and>
   active_tabs [0, 1, 2] (click_tabs [0, 1, 2] [1, 2, 1] demo_page) = [1]"
proof -
  have h1: "length (active_tabs [0, 1, 2] demo_page) \<le> 1"
    by (simp add: active_tabs_def demo_page_def classList_contains_def)
  have h2: "[1, 2, 1 :: nat] \<noteq> [] \<and> last [1, 2, 1 :: nat] \<in> set [0, 1, 2]"
    by simp
  from at_most_one_active_tab [OF h1, of "[1, 2, 1]"] h1 h2 show ?thesis
    by simp
qed

text \<open>
  The fallback of \<open>getProductData\<close>, where it works: a key that is neither a property
  of the table nor a member of \<^verbatim>\<open>Object.prototype\<close>, the empty string and \<^verbatim>\<open>null\<close>
  among them, renders the cards of the default category.
\<close>

lemma unknown_key_falls_back:
  assumes "ToPropertyKey k \<notin> fst ` set productData"
    and "ToPropertyKey k \<notin> set Object_prototype"
    and "modelsGrid pg = Some old"
  shows "\<exists>ps. map_of productData ''scooters'' = Some ps \<and>
           loadTabContent k pg = (None, pg\<lparr>modelsGrid := Some (map createProductCard ps)\<rparr>)"
proof -
  obtain ps where ps: "map_of productData ''scooters'' = Some ps"
    by (simp add: productData_def)
  have "map_of productData (ToPropertyKey k) = None"
    using assms(1) by (simp add: map_of_eq_None_iff)
  then have "getProductData k = Array ps"
    using assms(2) ps by (simp add: getProductData_def property_get_def truthy_def)
  with assms(3) ps show ?thesis
    using loadTabContent_Array by blast
qed

text \<open>
  C4, at the key "constructor", which is not a key of the table: the property read finds
  the inherited member, which is truthy, so the default list is not substituted;
  \<^verbatim>\<open>forEach\<close> is not a function of it and \<open>loadTabContent\<close> throws, leaving the target
  empty whatever it held before.
\<close>

theorem constructor_key_throws:
  "''constructor'' \<notin> fst ` set productData \<and>
   getProductData (Some ''constructor'') = PrototypeMember ''constructor'' \<and>
   loadTabContent (Some ''constructor'') (pg\<lparr>modelsGrid := Some old\<rparr>) =
     (Some TypeError, pg\<lparr>modelsGrid := Some []\<rparr>)"
proof -
  have "getProductData (Some ''constructor'') = PrototypeMember ''constructor''"
    by (simp add: getProductData_def property_get_def truthy_def ToPropertyKey_def
        productData_def Object_prototype_def)
  moreover from this have "loadTabContent (Some ''constructor'') (pg\<lparr>modelsGrid := Some old\<rparr>) =
     (Some TypeError, pg\<lparr>modelsGrid := Some []\<rparr>)"
    by (simp add: loadTabContent_def)
  moreover have "''constructor'' \<notin> fst ` set productData"
    by (simp add: productData_def)
  ultimately show ?thesis
    by simp
qed

section \<open>The consultation form\<close>

lemma showNotification_fields [simp]:
  "consultationForm (showNotification m ty now s) = consultationForm s"
  "submitBtn (showNotification m ty now s) = submitBtn s"
  "notifications (showNotification m ty now s) =
     notifications s @ [\<lparr>notification_className = ''notification notification-'' @ severity_name ty,
                         notification_message = m, backgroundColor = colors ty,
                         transform = ''translateX(100%)'', attached = True\<rparr>]"
  "latency_timers (showNotification m ty now s) = latency_timers s"
  by (simp_all add: showNotification_def setTimeout_def latency_timers_def Let_def)

lemma field_or_input_contract:
  assumes "dom_contract inputs name phone"
  shows "field_or_input ''name'' ''text'' inputs = Inr name"
    and "field_or_input ''phone'' ''tel'' inputs = Inr phone"
  using assms by (auto simp add: dom_contract_def field_or_input_def)

text \<open>
  C8. On a form that keeps the page contract (\<open>dom_contract\<close>: it has a text and a tel
  input, and the entries "name" and "phone" of its form data, where present, are the
  values of these two), a submission with an empty name or an empty phone does not enter
  the simulated submission: within the handler an error notification is appended, no
  latency timer is scheduled, and the submit button and the fields stay as they were.
\<close>

theorem empty_field_rejected:
  assumes "dom_contract (consultationForm s) name phone"
    and "name = [] \<or> phone = []"
  shows "handleConsultationSubmit now s = (None, showNotification msg_fill_all_fields Error now s) \<and>
         latency_timers (snd (handleConsultationSubmit now s)) = latency_timers s \<and>
         submitBtn (snd (handleConsultationSubmit now s)) = submitBtn s \<and>
         consultationForm (snd (handleConsultationSubmit now s)) = consultationForm s \<and>
         map notification_className (notifications (snd (handleConsultationSubmit now s))) =
           map notification_className (notifications s) @ [''notification notification-error'']"
  using assms(2) field_or_input_contract [OF assms(1)]
  by (auto simp add: handleConsultationSubmit_def severity_name_def)

theorem empty_field_rejected_witness:
  "dom_contract (consultationForm (demo_site [] ''123'')) [] ''123'' \<and>
   ([] = ([] :: string) \<or> ''123'' = []) \<and>
   latency_timers (snd (handleConsultationSubmit 0 (demo_site [] ''123''))) = [] \<and>
   map notification_className (notifications (snd (handleConsultationSubmit 0 (demo_site [] ''123'')))) =
     [''notification notification-error'']"
proof -
  have h1: "dom_contract (consultationForm (demo_site [] ''123'')) [] ''123''"
    by (simp add: dom_contract_def demo_site_def querySelector_input_def formData_get_def)
  have h2: "[] = ([] :: string) \<or> ''123'' = []"
    by simp
  have "latency_timers (demo_site [] ''123'') = []" "notifications (demo_site [] ''123'') = []"
    by (simp_all add: demo_site_def latency_timers_def no_timers_def)
  with empty_field_rejected [OF h1 h2, of 0] h1 h2 show ?thesis
    by (simp add: severity_name_def)
qed

lemma handleConsultationSubmit_valid:
  assumes "dom_contract (consultationForm s) name phone"
    and "name \<noteq> []" and "phone \<noteq> []"
    and "submitBtn s = Some btn"
  shows "handleConsultationSubmit now s =
           (None, s\<lparr>submitBtn := Some (btn\<lparr>textContent := sending_text, disabled := True\<rparr>),
                     site_timers := (site_timers s)
                       \<lparr>pending := pending (site_timers s) @
                          [(next_id (site_timers s), now + 1000, ResolveLatency (textContent btn))],
                        next_id := Suc (next_id (site_timers s))\<rparr>\<rparr>)"
  using assms(2-4) field_or_input_contract [OF assms(1)]
  by (simp add: handleConsultationSubmit_def submitConsultationRequest_def setTimeout_def)

text \<open>
  C9. On a form that keeps the page contract and has a submit button, a submission with
  a name and a phone that are both non-empty first schedules the simulated latency: the
  handler throws nothing, shows no notification, keeps the fields, disables the button
  with the text "Otpravlyaem..." and leaves one more timer, due 1000 ms later. When that
  timer fires, a success notification is appended, every field is reset to its default
  value (so every field is empty when no field has a preset value), and the button gets
  its original text back and is enabled.
\<close>

theorem valid_submission_succeeds:
  assumes "dom_contract (consultationForm s) name phone"
    and "name \<noteq> []" and "phone \<noteq> []"
    and "submitBtn s = Some btn"
  shows "let s1 = snd (handleConsultationSubmit now s);
             tm = (next_id (site_timers s), now + 1000, ResolveLatency (textContent btn));
             s2 = fire tm s1
         in fst (handleConsultationSubmit now s) = None \<and>
            notifications s1 = notifications s \<and>
            consultationForm s1 = consultationForm s \<and>
            submitBtn s1 = Some (btn\<lparr>textContent := sending_text, disabled := True\<rparr>) \<and>
            pending (site_timers s1) = pending (site_timers s) @ [tm] \<and>
            notifications s2 =
              notifications s @
                [\<lparr>notification_className = ''notification notification-success'',
                  notification_message = msg_request_sent, backgroundColor = ''#28a745'',
                  transform = ''translateX(100%)'', attached = True\<rparr>] \<and>
            map input_value (consultationForm s2) = map defaultValue (consultationForm s) \<and>
            ((\<forall>i \<in> set (consultationForm s). defaultValue i = []) \<longrightarrow>
             (\<forall>i \<in> set (consultationForm s2). input_value i = [])) \<and>
            submitBtn s2 = Some (btn\<lparr>disabled := False\<rparr>)"
  unfolding handleConsultationSubmit_valid [OF assms]
  by (simp add: Let_def fire_def run_callback_def submitConsultationRequest_resume_def
      form_reset_def severity_name_def colors_def comp_def)

theorem valid_submission_succeeds_witness:
  "dom_contract (consultationForm (demo_site ''A'' ''123'')) ''A'' ''123'' \<and>
   ''A'' \<noteq> [] \<and> ''123'' \<noteq> [] \<and>
   submitBtn (demo_site ''A'' ''123'') = Some \<lparr>textContent = ''Send'', disabled = False\<rparr> \<and>
   map defaultValue (consultationForm (demo_site ''A'' ''123'')) = [[], []] \<and>
   (let s1 = snd (handleConsultationSubmit 0 (demo_site ''A'' ''123''));
        s2 = fire (1, 1000, ResolveLatency ''Send'') s1
    in notifications s1 = [] \<and>
       submitBtn s1 = Some \<lparr>textContent = sending_text, disabled = True\<rparr> \<and>
       pending (site_timers s1) = [(1, 1000, ResolveLatency ''Send'')] \<and>
       map notification_className (notifications s2) = [''notification notification-success''] \<and>
       map input_value (consultationForm s2) = [[], []] \<and>
       submitBtn s2 = Some \<lparr>textContent = ''Send'', disabled = False\<rparr>)"
proof -
  let ?s = "demo_site ''A'' ''123''"
  have h1: "dom_contract (consultationForm ?s) ''A'' ''123''"
    by (simp add: dom_contract_def demo_site_def querySelector_input_def formData_get_def)
  have h2: "''A'' \<noteq> []" and h3: "''123'' \<noteq> []"
    by simp_all
  have h4: "submitBtn ?s = Some \<lparr>textContent = ''Send'', disabled = False\<rparr>"
    by (simp add: demo_site_def)
  have h5: "\<forall>i \<in> set (consultationForm ?s). defaultValue i = []"
    by (simp add: demo_site_def)
  have facts: "next_id (site_timers ?s) = 1" "pending (site_timers ?s) = []" "notifications ?s = []"
    by (simp_all add: demo_site_def no_timers_def)
  have h6: "map defaultValue (consultationForm ?s) = [[], []]"
    by (simp add: demo_site_def)
  from valid_submission_succeeds [OF h1 h2 h3 h4, of 0] h1 h4 h5 h6 facts show ?thesis
    by (simp add: Let_def)
qed

section \<open>The composer\<close>

lemma construct_all_stops:
  assumes "run_ok ctor pre e = Some e1" and "ctor w e1 = (Some x, e2)"
  shows "construct_all ctor (pre @ w # post) (cs, e) = (Some x, cs @ pre, e2)"
  using assms(1)
proof (induction pre arbitrary: cs e)
  case Nil
  with assms(2) show ?case by simp
next
  case (Cons a pre)
  obtain r e' where a: "ctor a e = (r, e')"
    by (cases "ctor a e")
  with Cons.prems have r: "r = None" and rest: "run_ok ctor pre e' = Some e1"
    by (cases r; simp)+
  from Cons.IH [OF rest, of "cs @ [a]"] a r show ?case
    by simp
qed

text \<open>
  C2, as the specification states it: when exactly one constructor throws, every other
  widget is still constructed. With a constructor of \<open>AutoScroll\<close> that throws and no
  other that does, \<open>MobileNav\<close> is not among the components.
\<close>

theorem one_failure_blocks_the_rest_counterexample:
  "fst (throws_only AutoScroll AutoScroll ()) = Some TypeError \<and>
   fst (throws_only AutoScroll MobileNav ()) = None \<and>
   MobileNav \<notin> set (components (initializeComponents (throws_only AutoScroll) (new_app ())))"
  by (simp add: throws_only_def initializeComponents_def new_app_def widget_order_def)

text \<open>
  C2, amended: when, in the run of \<open>initializeComponents\<close>, the constructors of the
  widgets before some widget in the fixed order return and the constructor of that widget
  throws, the exception is caught and logged with \<^verbatim>\<open>console.error\<close>, the widgets before
  it stay registered, the "loaded" marking is not added, neither the widget nor any widget
  after it is registered, and no later constructor runs: the environment is left as the
  throwing constructor left it.
\<close>

theorem constructor_failure_stops_initialization:
  assumes "widget_order = pre @ w # post"
    and "run_ok ctor pre (env a) = Some e1"
    and "ctor w e1 = (Some x, e2)"
  shows "components (initializeComponents ctor a) = components a @ pre \<and>
         console (initializeComponents ctor a) = console a @ [Console_error msg_init_failed x] \<and>
         body_loaded (initializeComponents ctor a) = body_loaded a \<and>
         env (initializeComponents ctor a) = e2 \<and>
         (components a = [] \<longrightarrow>
            (\<forall>w' \<in> set (w # post). w' \<notin> set (components (initializeComponents ctor a))))"
proof -
  have "construct_all ctor widget_order (components a, env a) = (Some x, components a @ pre, e2)"
    unfolding assms(1) using assms(2,3) by (rule construct_all_stops)
  then have *: "initializeComponents ctor a =
      a\<lparr>components := components a @ pre, env := e2,
        console := console a @ [Console_error msg_init_failed x]\<rparr>"
    by (simp add: initializeComponents_def)
  have "distinct widget_order"
    by (simp add: widget_order_def)
  then have "set pre \<inter> set (w # post) = {}"
    unfolding assms(1) by auto
  then show ?thesis
    unfolding * by auto
qed

theorem constructor_failure_stops_initialization_witness:
  "widget_order = [AutoScroll, MobileNav] @ ProductTabs # [FormHandler, PerformanceOptimizer, Analytics] \<and>
   run_ok entered_ctor [AutoScroll, MobileNav] (env (new_app [] :: (js_error, widget list) app)) =
     Some [AutoScroll, MobileNav] \<and>
   entered_ctor ProductTabs [AutoScroll, MobileNav] =
     (Some TypeError, [AutoScroll, MobileNav, ProductTabs]) \<and>
   entered_ctor ProductTabs [] = (None, [ProductTabs]) \<and>
   components (new_app [] :: (js_error, widget list) app) = [] \<and>
   components (initializeComponents entered_ctor (new_app [])) = [AutoScroll, MobileNav] \<and>
   console (initializeComponents entered_ctor (new_app [])) =
     [Console_error msg_init_failed TypeError] \<and>
   \<not> body_loaded (initializeComponents entered_ctor (new_app [])) \<and>
   env (initializeComponents entered_ctor (new_app [])) = [AutoScroll, MobileNav, ProductTabs] \<and>
   FormHandler \<notin> set (components (initializeComponents entered_ctor (new_app [])))"
proof -
  have h1: "widget_order =
      [AutoScroll, MobileNav] @ ProductTabs # [FormHandler, PerformanceOptimizer, Analytics]"
    by (simp add: widget_order_def)
  have h2: "run_ok entered_ctor [AutoScroll, MobileNav]
      (env (new_app [] :: (js_error, widget list) app)) = Some [AutoScroll, MobileNav]"
    by (simp add: entered_ctor_def new_app_def)
  have h3: "entered_ctor ProductTabs [AutoScroll, MobileNav] =
      (Some TypeError, [AutoScroll, MobileNav, ProductTabs])"
    by (simp add: entered_ctor_def)
  have h4: "entered_ctor ProductTabs [] = (None, [ProductTabs])"
    by (simp add: entered_ctor_def)
  from constructor_failure_stops_initialization [OF h1 h2 h3] h1 h2 h3 h4
  show ?thesis
    by (simp add: new_app_def)
qed

section \<open>The public \<^verbatim>\<open>switchTab\<close>\<close>

lemma strip_prefix_append: "strip_prefix p (p @ s) = Some s"
  by (induction p) simp_all

lemma scan_string_plain:
  "\<forall>c \<in> set v. plain_char c \<Longrightarrow> scan_string (v @ dquote # r) = Some (v, r)"
  by (induction v) (simp_all add: plain_char_def)

lemma parse_plain_name:
  assumes "\<forall>c \<in> set tabName. plain_char c"
  shows "parse_data_tab_list (data_tab_selector tabName) = Some [tabName]"
  using scan_string_plain [OF assms, of "'']''"]
  by (subst parse_data_tab_list.simps) (simp add: data_tab_selector_def strip_prefix_append)

text \<open>
  Where the lookup works: a name without quote, backslash, line break or NUL that is
  the \<^verbatim>\<open>data-tab\<close> value of no element of the document changes nothing.
\<close>

lemma plain_name_without_element_is_noop:
  assumes "\<forall>c \<in> set tabName. plain_char c"
    and "\<forall>b \<in> set (document pg). data_tab (element_at pg b) \<noteq> Some tabName"
  shows "ElectroPowerApp_switchTab engine productTabs tabName pg = (None, pg)"
proof -
  have "find (matches_data_tab [tabName] pg) (document pg) = None"
    using assms(2) by (auto simp add: find_None_iff matches_data_tab_def split: option.splits)
  then show ?thesis
    by (simp add: ElectroPowerApp_switchTab_def querySelector_def parse_plain_name [OF assms(1)])
qed

lemma parse_injected:
  "parse_data_tab_list (data_tab_selector injected_name) = Some [''x'', ''bikes'']"
  by (simp add: parse_data_tab_list.simps data_tab_selector_def attr_open_def injected_name_def
      dquote_def plain_char_def)

text \<open>
  C10, at the name \<^verbatim>\<open>x"],[data-tab="bikes\<close>, which is the \<^verbatim>\<open>data-tab\<close> value of no
  element: the selector built from it is the list \<^verbatim>\<open>[data-tab="x"],[data-tab="bikes"]\<close>,
  which finds the bikes button, so the call is \<open>ProductTabs_switchTab\<close> on that button:
  the active marking moves from the first button to it and the grid gets the three bikes.
\<close>

theorem injected_selector_switches_tab:
  "Some injected_name \<notin> set (map (\<lambda>b. data_tab (element_at demo_page b)) (document demo_page)) \<and>
   active_tabs [0, 1, 2] demo_page = [0] \<and>
   modelsGrid demo_page = Some [] \<and>
   ElectroPowerApp_switchTab engine (Some [0, 1, 2]) injected_name demo_page =
     ProductTabs_switchTab [0, 1, 2] 1 demo_page \<and>
   fst (ProductTabs_switchTab [0, 1, 2] 1 demo_page) = None \<and>
   active_tabs [0, 1, 2] (snd (ProductTabs_switchTab [0, 1, 2] 1 demo_page)) = [1] \<and>
   map title (the (modelsGrid (snd (ProductTabs_switchTab [0, 1, 2] 1 demo_page)))) =
     [''GT V6'', ''CAMRY 3.5'', ''Kugoo Kirin C2'']"
proof -
  have a: "Some injected_name \<notin> set (map (\<lambda>b. data_tab (element_at demo_page b)) (document demo_page))"
    by (simp add: demo_page_def injected_name_def)
  have b: "active_tabs [0, 1, 2] demo_page = [0]" "modelsGrid demo_page = Some []"
    by (simp_all add: active_tabs_def demo_page_def classList_contains_def)
  have "find (matches_data_tab [''x'', ''bikes''] demo_page) (document demo_page) = Some 1"
    by (simp add: matches_data_tab_def demo_page_def)
  then have c: "ElectroPowerApp_switchTab engine (Some [0, 1, 2]) injected_name demo_page =
     ProductTabs_switchTab [0, 1, 2] 1 demo_page"
    by (simp add: ElectroPowerApp_switchTab_def querySelector_def parse_injected)
  have d: "active_tabs [0, 1, 2] (snd (ProductTabs_switchTab [0, 1, 2] 1 demo_page)) = [1]"
    by (simp add: active_tabs_after_switch)
  obtain ps where ps: "map_of productData ''bikes'' = Some ps"
    "map product_name ps = [''GT V6'', ''CAMRY 3.5'', ''Kugoo Kirin C2'']"
    by (simp add: productData_def)
  have "ProductTabs_switchTab [0, 1, 2] 1 demo_page =
      loadTabContent (Some ''bikes'') (mark_active [0, 1, 2] 1 demo_page)"
    by (simp add: ProductTabs_switchTab_def demo_page_def)
  also have "\<dots> = (None, (mark_active [0, 1, 2] 1 demo_page)\<lparr>modelsGrid := Some (map createProductCard ps)\<rparr>)"
    using b(2) getProductData_known [OF ps(1)]
    by (intro loadTabContent_Array [where old = "[]"]) simp_all
  finally have e: "ProductTabs_switchTab [0, 1, 2] 1 demo_page =
      (None, (mark_active [0, 1, 2] 1 demo_page)\<lparr>modelsGrid := Some (map createProductCard ps)\<rparr>)" .
  have "map title (map createProductCard ps) = map product_name ps"
    by (simp add: createProductCard_def comp_def)
  with a b c d e ps(2) show ?thesis
    by simp
qed

end
